theory Spec2Isabelle
  imports Main "HOL-Library.Word"
begin

unbundle bit_operations_syntax

section \<open>Machine integers and bytes (i386: int, long, size_t and pointers are 32 bits)\<close>

text \<open>
  The kernel targets i386 with GCC: \<open>int\<close>, \<open>long\<close> (so \<open>loff_t\<close> and \<open>ssize_t\<close>),
  \<open>unsigned\<close> and \<open>size_t\<close> are 32 bits wide and plain \<open>char\<close> is signed.
  Signed values are modelled as \<open>int\<close>, unsigned ones as \<open>nat\<close> or \<open>32 word\<close>; the
  conversions C performs between them are written out with the two functions below.
\<close>

type_synonym u32 = "32 word"

definition to_long :: "int \<Rightarrow> int" where
  \<comment> \<open>conversion to a 32-bit signed type: reduce modulo \<open>2^32\<close> into \<open>[-2^31, 2^31)\<close>\<close>
  "to_long x = (x + 2147483648) mod 4294967296 - 2147483648"

definition to_size :: "int \<Rightarrow> nat" where
  \<comment> \<open>conversion to \<open>size_t\<close>: reduce modulo \<open>2^32\<close>\<close>
  "to_size x = nat (x mod 4294967296)"

definition is_long :: "int \<Rightarrow> bool" where
  "is_long x = (- 2147483648 \<le> x \<and> x < 2147483648)"

definition schar :: "char \<Rightarrow> int" where
  \<comment> \<open>the value of a byte read through a (signed) \<open>char\<close>\<close>
  "schar c = (if (of_char c :: nat) < 128 then int (of_char c) else int (of_char c) - 256)"

definition NUL :: char where
  "NUL = CHR 0x00"

subsection \<open>errno.h\<close>

definition ENOMEM :: int where "ENOMEM = 5"
definition ENOTSUP :: int where "ENOTSUP = 8"
definition EINVAL :: int where "EINVAL = 9"
definition EBUSY :: int where "EBUSY = 12"
definition EAGAIN :: int where "EAGAIN = 15"
definition ENOBUFS :: int where "ENOBUFS = 21"
definition ENODEV :: int where "ENODEV = 26"
definition ENOENT :: int where "ENOENT = 33"

section \<open>Driver registries (vfs\_file.c, vfs\_fs.c)\<close>

text \<open>
  \<open>chrdev_drivers[MAJORS_MAX]\<close> and \<open>fs_drivers[FSTYPES_MAX]\<close> are arrays of pointers to
  operations tables. An array is a map from the index to the pointer stored there,
  \<open>None\<close> being the null pointer; the range checks of the code keep every access inside
  the array. The identifier is an \<open>unsigned\<close>.
\<close>

definition MAJORS_MAX :: u32 where "MAJORS_MAX = 5"
definition FSTYPES_MAX :: u32 where "FSTYPES_MAX = 4"

definition chrdev_register_inner ::
  "(nat \<rightharpoonup> 'ops) \<Rightarrow> u32 \<Rightarrow> 'ops option \<Rightarrow> int \<times> (nat \<rightharpoonup> 'ops)" where
  "chrdev_register_inner chrdev_drivers maj fops =
     (if maj \<le> 0 \<or> MAJORS_MAX \<le> maj then (- EINVAL, chrdev_drivers)
      else if chrdev_drivers (unat maj) \<noteq> None
        then (if chrdev_drivers (unat maj) = fops then 0 else - EBUSY, chrdev_drivers)
      else (0, chrdev_drivers (unat maj := fops)))"

definition chrdev_register ::
  "(nat \<rightharpoonup> 'ops) \<Rightarrow> u32 \<Rightarrow> 'ops option \<Rightarrow> int \<times> (nat \<rightharpoonup> 'ops)" where
  \<comment> \<open>\<open>res\<close> is only logged; the function ends with \<open>return maj;\<close> (unsigned to int)\<close>
  "chrdev_register chrdev_drivers maj fops =
     (let (res, chrdev_drivers') = chrdev_register_inner chrdev_drivers maj fops
      in (sint maj, chrdev_drivers'))"

definition fs_register_inner ::
  "(nat \<rightharpoonup> 'ops) \<Rightarrow> u32 \<Rightarrow> 'ops option \<Rightarrow> int \<times> (nat \<rightharpoonup> 'ops)" where
  "fs_register_inner fs_drivers fstypeid ops =
     (if fstypeid \<le> 0 \<or> FSTYPES_MAX \<le> fstypeid then (- EINVAL, fs_drivers)
      else if fs_drivers (unat fstypeid) \<noteq> None
        then (if fs_drivers (unat fstypeid) = ops then 0 else - EBUSY, fs_drivers)
      else (0, fs_drivers (unat fstypeid := ops)))"

definition fs_register ::
  "(nat \<rightharpoonup> 'ops) \<Rightarrow> u32 \<Rightarrow> 'ops option \<Rightarrow> int \<times> (nat \<rightharpoonup> 'ops)" where
  "fs_register fs_drivers fstypeid ops =
     (let (res, fs_drivers') = fs_register_inner fs_drivers fstypeid ops
      in (res, fs_drivers'))"

section \<open>C strings (core/string.c)\<close>

text \<open>
  A \<open>const char *\<close> is modelled by the list of bytes it points to. The terminator is
  what the list ends with: reading at the end of the list gives \<open>NUL\<close>, and a \<open>NUL\<close>
  inside a list terminates the string there, as it does in memory.
\<close>

definition deref :: "string \<Rightarrow> char" where
  "deref s = (case s of [] \<Rightarrow> NUL | c # _ \<Rightarrow> c)"

definition cmp_tail :: "char \<Rightarrow> char \<Rightarrow> int" where
  \<comment> \<open>the three returns that end an iteration of \<open>strcmp\<close> and \<open>strncmp\<close>\<close>
  "cmp_tail a b = (if schar a < schar b then - 1 else if a = b then 0 else 1)"

function strcmp :: "string \<Rightarrow> string \<Rightarrow> int" where
  "strcmp s t =
     (if deref s \<noteq> NUL \<and> deref t \<noteq> NUL \<and> deref s = deref t then strcmp (tl s) (tl t)
      else cmp_tail (deref s) (deref t))"
  by pat_completeness auto
termination
  by (relation "measure (\<lambda>(s, t). length s)") (auto simp: deref_def split: list.splits)

declare strcmp.simps [simp del]

fun strncmp :: "string \<Rightarrow> string \<Rightarrow> nat \<Rightarrow> int" where
  "strncmp s t 0 = 0"
| "strncmp s t (Suc n) =
     (if deref s \<noteq> NUL \<and> deref t \<noteq> NUL \<and> deref s = deref t then strncmp (tl s) (tl t) n
      else cmp_tail (deref s) (deref t))"

fun strlen :: "string \<Rightarrow> nat" where
  "strlen [] = 0"
| "strlen (c # s) = (if c = NUL then 0 else Suc (strlen s))"

fun strchr :: "string \<Rightarrow> char \<Rightarrow> nat option" where
  \<comment> \<open>the offset of the byte found; the terminator itself is compared before the loop ends\<close>
  "strchr [] ch = (if NUL = ch then Some 0 else None)"
| "strchr (c # s) ch =
     (if c = ch then Some 0 else if c = NUL then None else map_option Suc (strchr s ch))"

fun strstr_at :: "string \<Rightarrow> string \<Rightarrow> nat \<Rightarrow> nat option" where
  \<comment> \<open>the loop of \<open>strstr\<close>, \<open>k\<close> bytes into the string: it ends at the terminator of \<open>str\<close>\<close>
  "strstr_at [] substr k = None"
| "strstr_at (c # s) substr k =
     (if c = NUL then None
      else if strncmp (c # s) substr (strlen substr) = 0 then Some k
      else strstr_at s substr (Suc k))"

definition strstr :: "string \<Rightarrow> string \<Rightarrow> nat option" where
  \<comment> \<open>the offset of the match from \<open>str\<close>; \<open>None\<close> is the null pointer\<close>
  "strstr str substr = strstr_at str substr 0"

definition cstring :: "char list \<Rightarrow> string" where
  \<comment> \<open>the string a buffer holds: its bytes up to the first terminator\<close>
  "cstring buf = takeWhile (\<lambda>c. c \<noteq> NUL) buf"

section \<open>snprintf with the format "%s" (core/sprintf.c)\<close>

text \<open>
  \<open>snprintf(s, n, "%s", str)\<close> runs \<open>outstr\<close> over the argument: \<open>outchar\<close> stores a byte
  only while the position is before the end \<open>t = s + n\<close> and advances in any case; then a
  terminator is stored at the position reached, or in the last byte of the buffer,
  when \<open>n\<close> is not 0. The result is the number of bytes the string has. The buffer is the
  list of its bytes, and positions are indices into it.
\<close>

definition outchar :: "char list \<Rightarrow> nat \<Rightarrow> nat \<Rightarrow> char \<Rightarrow> char list \<times> nat" where
  "outchar buf s t c = (if s < t then buf[s := c] else buf, Suc s)"

fun outstr :: "char list \<Rightarrow> nat \<Rightarrow> nat \<Rightarrow> string \<Rightarrow> char list \<times> nat" where
  "outstr buf s t [] = (buf, s)"
| "outstr buf s t (c # str) =
     (if c = NUL then (buf, s)
      else (let (buf', s') = outchar buf s t c in outstr buf' s' t str))"

definition snprintf_s :: "char list \<Rightarrow> nat \<Rightarrow> nat \<Rightarrow> string \<Rightarrow> char list \<times> int" where
  \<comment> \<open>buffer, index of \<open>s\<close> in it, \<open>n\<close>, the argument of "%s"\<close>
  "snprintf_s buf bufstart n str =
     (let t = bufstart + n;
          (buf', s) = outstr buf bufstart t str;
          buf'' = (if n \<noteq> 0 then (if s < t then buf'[s := NUL] else buf'[t - 1 := NUL])
                   else buf')
      in (buf'', int s - int bufstart))"

section \<open>Paths (core/path.c)\<close>

definition BUFREM :: "nat \<Rightarrow> nat \<Rightarrow> nat" where
  "BUFREM pos end = (if pos < end then end - pos else 0)"

definition path_join ::
  "char list \<Rightarrow> nat \<Rightarrow> string option \<Rightarrow> string option \<Rightarrow> (int \<times> char list) option" where
  \<comment> \<open>\<open>dst\<close> is the buffer of \<open>dstsz\<close> bytes; the result is the value returned and the
      buffer left behind. \<open>None\<close>: the code reads \<open>*(pos - 1)\<close> outside the buffer.\<close>
  "path_join dst dstsz a b =
     (let end = dstsz;
          path_isabs = (case b of None \<Rightarrow> False | Some bs \<Rightarrow> deref bs = CHR ''/'');
          step1 =
            (case a of
               Some as \<Rightarrow>
                 if \<not> path_isabs then
                   (let (buf1, r1) = snprintf_s dst 0 (BUFREM 0 end) as;
                        pos1 = nat r1
                    in if b \<noteq> None \<and> pos1 \<noteq> 0 then
                         (if pos1 - 1 < dstsz then
                            (if buf1 ! (pos1 - 1) \<noteq> CHR ''/'' then
                               (let (buf2, r2) = snprintf_s buf1 pos1 (BUFREM pos1 end) ''/''
                                in Some (buf2, pos1 + nat r2))
                             else Some (buf1, pos1))
                          else None)
                       else Some (buf1, pos1))
                 else Some (dst, 0)
             | None \<Rightarrow> Some (dst, 0))
      in case step1 of
           None \<Rightarrow> None
         | Some (buf2, pos2) \<Rightarrow>
             (case b of
                None \<Rightarrow> Some (int pos2, buf2)
              | Some bs \<Rightarrow>
                  (let (buf3, r3) = snprintf_s buf2 pos2 (BUFREM pos2 end) bs
                   in Some (int pos2 + r3, buf3))))"

definition path_strip_prefix :: "string option \<Rightarrow> string option \<Rightarrow> string option" where
  \<comment> \<open>the result is the string the returned pointer points to; \<open>None\<close> is the null pointer\<close>
  "path_strip_prefix path prefix =
     (case path of
        None \<Rightarrow> None
      | Some p \<Rightarrow>
          (case prefix of
             None \<Rightarrow> Some p
           | Some pre \<Rightarrow>
               (let prefixlen = strlen pre
                in if strncmp p pre prefixlen \<noteq> 0 then None
                   else (let pos = drop prefixlen p
                         in if deref pos = CHR ''/'' then Some (tl pos) else Some pos))))"

subsection \<open>The join of two paths, in the words of the specification\<close>

definition starts_slash :: "string \<Rightarrow> bool" where
  "starts_slash s = (s \<noteq> [] \<and> hd s = CHR ''/'')"

definition ends_slash :: "string \<Rightarrow> bool" where
  "ends_slash s = (s \<noteq> [] \<and> last s = CHR ''/'')"

definition path_join_spec :: "string \<Rightarrow> string \<Rightarrow> string" where
  \<comment> \<open>if \<open>b\<close> is absolute, \<open>b\<close>; else \<open>a\<close>, then "/" iff \<open>a\<close> is non-empty and does not
      already end with "/", then \<open>b\<close>\<close>
  "path_join_spec a b =
     (if starts_slash b then b
      else a @ (if a \<noteq> [] \<and> \<not> ends_slash a then ''/'' else []) @ b)"

section \<open>Superblocks and the mount list (vfs\_fs.c)\<close>

text \<open>
  Pointers to operations tables are addresses (\<open>None\<close> is the null pointer); the tables
  themselves are read through a function from addresses to tables. The static pool
  \<open>superblocks[SB_MAX]\<close> is a function from the index to the superblock. The intrusive
  circular list \<open>vfs_mount_list\<close> is the list of the pool indices of its entries, in
  \<open>next\<close> order from the head: \<open>list_add_tail(new, head)\<close> links \<open>new\<close> between
  \<open>head->prev\<close> and \<open>head\<close>, which makes it the last entry.
\<close>

definition PATH_MAX :: nat where "PATH_MAX = 128"
definition SB_MAX :: nat where "SB_MAX = 4"

record superblock =
  s_root_ino :: nat
  s_bdev :: nat
  s_name :: string
  s_mountpath :: string
  s_op :: "nat option"
  s_driver_data :: "nat option"

record fs_operations =
  sb_open_hook :: "(superblock \<Rightarrow> int \<times> superblock) option"
  sb_release_hook :: "(superblock \<Rightarrow> int \<times> superblock) option"
  fs_file_ops :: "nat option"

record vfs =
  fs_drivers :: "nat \<rightharpoonup> nat"
  superblocks :: "nat \<Rightarrow> superblock"
  vfs_mount_list :: "nat list"

definition sb_alloc :: "(nat \<Rightarrow> superblock) \<Rightarrow> nat option" where
  "sb_alloc sbs = find (\<lambda>i. s_op (sbs i) = None) [0 ..< SB_MAX]"

definition sb_free :: "superblock \<Rightarrow> superblock" where
  "sb_free sb = sb \<lparr> s_op := None \<rparr>"

definition sb_open ::
  "(nat \<Rightarrow> fs_operations) \<Rightarrow> (nat \<rightharpoonup> nat) \<Rightarrow> superblock \<Rightarrow> nat \<Rightarrow> nat \<Rightarrow> int \<times> superblock" where
  \<comment> \<open>the code indexes \<open>fs_drivers\<close> without a range check; the map has no entry outside the
      range \<open>fs_register\<close> writes\<close>
  "sb_open fsops_at drivers sb blockdev fstypeid =
     (case drivers fstypeid of
        None \<Rightarrow> (- ENODEV, sb)
      | Some p \<Rightarrow>
          (let sb0 = \<lparr> s_root_ino = 0, s_bdev = blockdev, s_name = [], s_mountpath = [],
                       s_op = Some p, s_driver_data = None \<rparr>
           in case sb_open_hook (fsops_at p) of
                None \<Rightarrow> (0, sb0)
              | Some h \<Rightarrow> (let (res, sb1) = h sb0 in if res < 0 then (res, sb1) else (0, sb1))))"

fun mount_list_scan :: "(nat \<Rightarrow> superblock) \<Rightarrow> nat list \<Rightarrow> string \<Rightarrow> nat option" where
  \<comment> \<open>the \<open>list_for_each_entry\<close> loop of \<open>vfs_mount_list_add\<close>: the entry \<open>pos\<close> stands at
      when the loop breaks, \<open>None\<close> when it ran round to the head\<close>
  "mount_list_scan sbs [] mountpath = None"
| "mount_list_scan sbs (pos # rest) mountpath =
     (if strcmp (s_mountpath (sbs pos)) mountpath > 0 then Some pos
      else mount_list_scan sbs rest mountpath)"

definition vfs_mount_list_add :: "(nat \<Rightarrow> superblock) \<Rightarrow> nat list \<Rightarrow> nat \<Rightarrow> nat list" where
  \<comment> \<open>after the loop: \<open>list_add_tail(&sb->s_mount_list, &vfs_mount_list)\<close>, on the head
      of the list whatever \<open>pos\<close> is\<close>
  "vfs_mount_list_add sbs mount_list sb =
     (let pos = mount_list_scan sbs mount_list (s_mountpath (sbs sb))
      in mount_list @ [sb])"

definition fs_mountdev ::
  "(nat \<Rightarrow> fs_operations) \<Rightarrow> vfs \<Rightarrow> nat \<Rightarrow> nat \<Rightarrow> string \<Rightarrow> int \<times> vfs" where
  \<comment> \<open>\<open>sb_release\<close> is only called when a step after \<open>sb_open\<close> fails, and there is none\<close>
  "fs_mountdev fsops_at st blockdev fstypeid mpath =
     (case sb_alloc (superblocks st) of
        None \<Rightarrow> (- ENOMEM, st)
      | Some i \<Rightarrow>
          (let (res, sb) = sb_open fsops_at (fs_drivers st) (superblocks st i) blockdev fstypeid
           in if res < 0 then (res, st \<lparr> superblocks := (superblocks st) (i := sb_free sb) \<rparr>)
              else
                (let sb' = sb \<lparr> s_mountpath :=
                             cstring (fst (snprintf_s (replicate PATH_MAX NUL) 0 PATH_MAX mpath)) \<rparr>;
                     sbs' = (superblocks st) (i := sb')
                 in (0, st \<lparr> superblocks := sbs',
                            vfs_mount_list := vfs_mount_list_add sbs' (vfs_mount_list st) i \<rparr>))))"

definition find_mount_for_path :: "(nat \<Rightarrow> superblock) \<Rightarrow> nat list \<Rightarrow> string \<Rightarrow> nat option" where
  \<comment> \<open>\<open>list_for_each_entry_prev\<close>: from the last entry back to the first\<close>
  "find_mount_for_path sbs mount_list abspath =
     find (\<lambda>sb. strstr abspath (s_mountpath (sbs sb)) = Some 0) (rev mount_list)"

definition mount_paths :: "vfs \<Rightarrow> string list" where
  \<comment> \<open>the mountpaths of the mount list, in list order\<close>
  "mount_paths st = map (\<lambda>sb. s_mountpath (superblocks st sb)) (vfs_mount_list st)"

definition vfs_boot :: vfs where
  \<comment> \<open>the static initial state: no driver, every superblock zeroed, the list empty\<close>
  "vfs_boot = \<lparr> fs_drivers = Map.empty,
               superblocks = (\<lambda>i. \<lparr> s_root_ino = 0, s_bdev = 0, s_name = [], s_mountpath = [],
                                      s_op = None, s_driver_data = None \<rparr>),
               vfs_mount_list = [] \<rparr>"

subsection \<open>A mount scenario: the mountpath "/bin" mounted before "/"\<close>

definition plain_fsops :: "nat \<Rightarrow> fs_operations" where
  \<comment> \<open>a filesystem driver whose \<open>sb_open\<close> succeeds\<close>
  "plain_fsops p =
     \<lparr> sb_open_hook = Some (\<lambda>sb. (0, sb)), sb_release_hook = None, fs_file_ops = Some 2 \<rparr>"

definition vfs_with_driver :: vfs where
  \<comment> \<open>after \<open>fs_register(FS_CPIO, ops)\<close>, the operations table at address 1\<close>
  "vfs_with_driver = vfs_boot \<lparr> fs_drivers := [3 \<mapsto> 1] \<rparr>"

definition bin_mounted :: vfs where
  \<comment> \<open>\<open>fs_mountdev(MAKEDEV(MAJ_RAMDISK, 0), FS_CPIO, "/bin")\<close>\<close>
  "bin_mounted = snd (fs_mountdev plain_fsops vfs_with_driver 1024 3 ''/bin'')"

definition bin_then_root_mounted :: vfs where
  \<comment> \<open>then \<open>fs_mountdev(MAKEDEV(MAJ_RAMDISK, 1), FS_CPIO, "/")\<close>\<close>
  "bin_then_root_mounted = snd (fs_mountdev plain_fsops bin_mounted 1025 3 ''/'')"

definition root_then_bin_mounted :: vfs where
  \<comment> \<open>the same two mounts in the other order\<close>
  "root_then_bin_mounted =
     snd (fs_mountdev plain_fsops
            (snd (fs_mountdev plain_fsops vfs_with_driver 1025 3 ''/'')) 1024 3 ''/bin'')"

section \<open>Files (vfs.h, vfs\_file.c)\<close>

text \<open>
  A file holds a pointer to the operations table of its driver and a pointer to the
  driver's data: the address of a table, and the index of the driver's static structure
  in its pool. The operations tables are read through a function from addresses to
  tables; only the entry points used below are fields of the table. An entry point gets
  the file, and for \<open>read\<close> the count and the value of \<open>*off\<close>; \<open>read\<close> gives back the
  value returned, the new value of \<open>*off\<close> and the bytes stored at \<open>dst\<close>, or \<open>None\<close>
  when the driver dereferences a null pointer.
\<close>

datatype dirtype = DT_UNKNOWN | DT_CHR | DT_DIR | DT_REG

record fstat =
  f_ino :: nat
  f_type :: dirtype
  f_rdev :: nat
  f_size :: int

record "file" =
  f_stat :: fstat
  f_pos :: int
  f_op :: "nat option"
  f_driver_data :: "nat option"

record file_operations =
  open_dev :: "(file \<Rightarrow> nat \<Rightarrow> int \<times> file) option"
  read :: "(file \<Rightarrow> nat \<Rightarrow> int \<Rightarrow> (int \<times> int \<times> char list) option) option"
  lseek :: "(file \<Rightarrow> int \<Rightarrow> int \<Rightarrow> int \<times> file) option"

definition SEEK_SET :: int where "SEEK_SET = 1"
definition SEEK_CUR :: int where "SEEK_CUR = 2"
definition SEEK_END :: int where "SEEK_END = 3"

definition file_zero :: "file" where
  \<comment> \<open>\<open>(struct file){}\<close>\<close>
  "file_zero = \<lparr> f_stat = \<lparr> f_ino = 0, f_type = DT_UNKNOWN, f_rdev = 0, f_size = 0 \<rparr>,
                 f_pos = 0, f_op = None, f_driver_data = None \<rparr>"

definition file_open_dev_inner ::
  "(nat \<Rightarrow> file_operations) \<Rightarrow> (nat \<rightharpoonup> nat) \<Rightarrow> file \<Rightarrow> nat \<Rightarrow> int \<times> file" where
  \<comment> \<open>\<open>MAJOR(rdev)\<close> is \<open>rdev >> 8\<close>, \<open>MINOR(rdev)\<close> is \<open>rdev & 0xff\<close>\<close>
  "file_open_dev_inner fops_at chrdev_drivers file rdev =
     (let maj = rdev div 256; minor = rdev mod 256
      in if maj \<le> 0 \<or> unat MAJORS_MAX \<le> maj then (- ENODEV, file)
         else (case chrdev_drivers maj of
                 None \<Rightarrow> (- ENODEV, file)
               | Some ops \<Rightarrow>
                   (let file1 = file \<lparr> f_stat := (f_stat file) \<lparr> f_type := DT_CHR, f_rdev := rdev \<rparr>,
                                        f_op := Some ops \<rparr>
                    in case open_dev (fops_at ops) of
                         None \<Rightarrow> (0, file1)
                       | Some h \<Rightarrow> h file1 minor)))"

definition file_open_dev ::
  "(nat \<Rightarrow> file_operations) \<Rightarrow> (nat \<rightharpoonup> nat) \<Rightarrow> nat \<Rightarrow> int \<times> file" where
  "file_open_dev fops_at chrdev_drivers rdev =
     file_open_dev_inner fops_at chrdev_drivers file_zero rdev"

definition file_read ::
  "(nat \<Rightarrow> file_operations) \<Rightarrow> file option \<Rightarrow> bool \<Rightarrow> nat
     \<Rightarrow> (int \<times> char list \<times> file option) option" where
  \<comment> \<open>\<open>dst\<close> tells whether the pointer \<open>dst\<close> is non-null; the driver reads at
      \<open>&f->f_pos\<close>, so the position of the file follows\<close>
  "file_read fops_at f dst count =
     (case f of
        None \<Rightarrow> Some (- EINVAL, [], f)
      | Some fl \<Rightarrow>
          (case f_op fl of
             None \<Rightarrow> Some (- EINVAL, [], f)
           | Some p \<Rightarrow>
               (case read (fops_at p) of
                  None \<Rightarrow> Some (- EINVAL, [], f)
                | Some rd \<Rightarrow>
                    if \<not> dst then Some (0, [], f)
                    else if count = 0 then Some (0, [], f)
                    else (case rd fl count (f_pos fl) of
                            None \<Rightarrow> None
                          | Some (res, off', bytes) \<Rightarrow>
                              Some (res, bytes, Some (fl \<lparr> f_pos := off' \<rparr>))))))"

definition file_pread ::
  "(nat \<Rightarrow> file_operations) \<Rightarrow> file option \<Rightarrow> bool \<Rightarrow> nat \<Rightarrow> int
     \<Rightarrow> (int \<times> char list) option" where
  \<comment> \<open>the driver reads at \<open>&off\<close>, the caller's copy: the file is left as it is\<close>
  "file_pread fops_at f dst count off =
     (case f of
        None \<Rightarrow> Some (- EINVAL, [])
      | Some fl \<Rightarrow>
          (case f_op fl of
             None \<Rightarrow> Some (- EINVAL, [])
           | Some p \<Rightarrow>
               (case read (fops_at p) of
                  None \<Rightarrow> Some (- EINVAL, [])
                | Some rd \<Rightarrow>
                    if \<not> dst then Some (0, [])
                    else if count = 0 then Some (0, [])
                    else (case rd fl count off of
                            None \<Rightarrow> None
                          | Some (res, off', bytes) \<Rightarrow> Some (res, bytes)))))"

definition file_lseek ::
  "(nat \<Rightarrow> file_operations) \<Rightarrow> file option \<Rightarrow> int \<Rightarrow> int \<Rightarrow> int \<times> file option" where
  \<comment> \<open>the value returned and the file left behind; \<open>res\<close> starts as 0\<close>
  "file_lseek fops_at f off whence =
     (case f of
        None \<Rightarrow> (- EINVAL, f)
      | Some fl \<Rightarrow>
          (case f_op fl of
             None \<Rightarrow> (- EINVAL, f)
           | Some p \<Rightarrow>
               (let (res, fl1) = (case lseek (fops_at p) of
                                    None \<Rightarrow> (0, fl)
                                  | Some h \<Rightarrow> h fl off whence)
                in if res < 0 then (res, Some fl1)
                   else if whence = SEEK_SET then (res, Some (fl1 \<lparr> f_pos := off \<rparr>))
                   else if whence = SEEK_CUR
                     then (res, Some (fl1 \<lparr> f_pos := to_long (f_pos fl1 + off) \<rparr>))
                   else if whence = SEEK_END
                     then (res, Some (fl1 \<lparr> f_pos := to_long (f_size (f_stat fl1) + off) \<rparr>))
                   else (- EINVAL, Some fl1))))"

section \<open>Ramdisk (chrdev/ramdisk.c)\<close>

text \<open>
  A ramdisk is an address, a size and a name; the address 0 is the null pointer and marks
  a free slot of the pool \<open>ramdisks[RAMDISKS_MAX]\<close>. Memory is a function from addresses
  to bytes.
\<close>

definition RAMDISKS_MAX :: nat where "RAMDISKS_MAX = 4"

record ramdisk =
  addr :: nat
  rd_size :: nat
  name :: string

definition ramdisk_open_dev :: "(nat \<Rightarrow> ramdisk) \<Rightarrow> file \<Rightarrow> nat \<Rightarrow> int \<times> file" where
  \<comment> \<open>\<open>f_size\<close> is a \<open>loff_t\<close>, \<open>rd_size\<close> a \<open>size_t\<close>\<close>
  "ramdisk_open_dev ramdisks file minor =
     (let disk_no = minor
      in if disk_no \<ge> RAMDISKS_MAX \<or> addr (ramdisks disk_no) = 0 then (- ENODEV, file)
         else (0, file \<lparr> f_driver_data := Some disk_no,
                          f_stat := (f_stat file) \<lparr> f_size :=
                                       to_long (int (rd_size (ramdisks disk_no))) \<rparr> \<rparr>))"

function ramdisk_copy ::
  "(nat \<Rightarrow> char) \<Rightarrow> ramdisk option \<Rightarrow> int \<Rightarrow> nat \<Rightarrow> nat \<Rightarrow> int \<Rightarrow> char list
     \<Rightarrow> (nat \<times> int \<times> char list) option" where
  \<comment> \<open>the \<open>for\<close> loop of \<open>ramdisk_read\<close>: \<open>i\<close>, \<open>*off\<close> and the bytes stored so far\<close>
  "ramdisk_copy mem rd fsize count i off stored =
     (if i < count \<and> off < fsize then
        (case rd of
           None \<Rightarrow> None
         | Some r \<Rightarrow>
             ramdisk_copy mem rd fsize count (Suc i) (off + 1)
               (stored @ [mem (addr r + nat off)]))
      else Some (i, off, stored))"
  by pat_completeness auto
termination
  by (relation "measure (\<lambda>(mem, rd, fsize, count, i, off, stored). count - i)") auto

declare ramdisk_copy.simps [simp del]

definition ramdisk_read ::
  "(nat \<Rightarrow> ramdisk) \<Rightarrow> (nat \<Rightarrow> char) \<Rightarrow> file \<Rightarrow> nat \<Rightarrow> int
     \<Rightarrow> (int \<times> int \<times> char list) option" where
  "ramdisk_read ramdisks mem f count off =
     (let rd = map_option ramdisks (f_driver_data f);
          off1 = (if off < 0 then 0 else off)
      in if off1 \<ge> f_size (f_stat f) then Some (0, off1, [])
         else (case ramdisk_copy mem rd (f_size (f_stat f)) count 0 off1 [] of
                 None \<Rightarrow> None
               | Some (i, off2, stored) \<Rightarrow> Some (to_long (int i), off2, stored)))"

definition ramdisk_ops :: "(nat \<Rightarrow> ramdisk) \<Rightarrow> (nat \<Rightarrow> char) \<Rightarrow> file_operations" where
  \<comment> \<open>no \<open>lseek\<close> entry\<close>
  "ramdisk_ops ramdisks mem = \<lparr> open_dev = Some (ramdisk_open_dev ramdisks),
                                read = Some (ramdisk_read ramdisks mem), lseek = None \<rparr>"

section \<open>Reading a file of a CPIO archive (fs/cpiofs.c)\<close>

record cfdata =
  af :: "file"
  foff :: int

definition cpio_file_read ::
  "(nat \<Rightarrow> file_operations) \<Rightarrow> (nat \<Rightarrow> cfdata) \<Rightarrow> file \<Rightarrow> nat \<Rightarrow> int
     \<Rightarrow> (int \<times> int \<times> char list) option" where
  \<comment> \<open>\<open>fops_at\<close> holds the tables of the device drivers, \<open>cfdatas\<close> is the pool of the
      driver. The new count is \<open>f_size - f_pos\<close>, converted to \<open>size_t\<close>.\<close>
  "cpio_file_read fops_at cfdatas f count off =
     (case f_driver_data f of
        None \<Rightarrow> None
      | Some d \<Rightarrow>
          (let cfdata = cfdatas d;
               aoff = to_long (off + foff cfdata);
               count1 = (if to_long (off + to_long (int count)) > f_size (f_stat f)
                         then to_size (f_size (f_stat f) - f_pos f) else count)
           in case file_pread fops_at (Some (af cfdata)) True count1 aoff of
                None \<Rightarrow> None
              | Some (res, bytes) \<Rightarrow>
                  if res < 0 then Some (res, off, bytes)
                  else Some (res, to_long (to_long (aoff + res) - foff cfdata), bytes)))"

definition cpio_file_ops ::
  "(nat \<Rightarrow> file_operations) \<Rightarrow> (nat \<Rightarrow> cfdata) \<Rightarrow> file_operations" where
  "cpio_file_ops fops_at cfdatas =
     \<lparr> open_dev = None, read = Some (cpio_file_read fops_at cfdatas), lseek = None \<rparr>"

subsection \<open>A scenario: one ramdisk holding an archive, and a file of the archive\<close>

definition disk_mem :: "nat \<Rightarrow> char" where
  \<comment> \<open>memory whose byte at an address is the low byte of the address\<close>
  "disk_mem a = char_of a"

definition one_ramdisk :: "nat \<Rightarrow> ramdisk" where
  \<comment> \<open>the pool after \<open>ramdisk_create(0x1000, 512, "initrd")\<close>\<close>
  "one_ramdisk i = (if i = 0 then \<lparr> addr = 4096, rd_size = 512, name = ''initrd'' \<rparr>
                    else \<lparr> addr = 0, rd_size = 0, name = [] \<rparr>)"

definition dev_fops :: "nat \<Rightarrow> file_operations" where
  \<comment> \<open>the operations table of the ramdisk driver\<close>
  "dev_fops p = ramdisk_ops one_ramdisk disk_mem"

definition archive_file :: "file" where
  \<comment> \<open>\<open>file_open_dev(&af, MAKEDEV(MAJ_RAMDISK, 0))\<close> with the ramdisk driver registered\<close>
  "archive_file = snd (file_open_dev dev_fops [4 \<mapsto> 4] 1024)"

definition hello_cfdatas :: "nat \<Rightarrow> cfdata" where
  \<comment> \<open>the archive starts with the entry "." (header at 0, 110 bytes, name of 2 bytes) and
      the entry "hello" of 8 bytes (header at 112, name of 6 bytes): its data is at 228\<close>
  "hello_cfdatas i = \<lparr> af = archive_file, foff = 228 \<rparr>"

definition cpio_fops :: "nat \<Rightarrow> file_operations" where
  "cpio_fops p = cpio_file_ops dev_fops hello_cfdatas"

definition hello_file :: "file" where
  \<comment> \<open>the file "hello" as \<open>cpio_file_open_path\<close> leaves it: 8 bytes, position 0\<close>
  "hello_file = \<lparr> f_stat = \<lparr> f_ino = 0, f_type = DT_REG, f_rdev = 0, f_size = 8 \<rparr>,
                  f_pos = 0, f_op = Some 5, f_driver_data = Some 0 \<rparr>"

section \<open>Formatted output with the format "\\x%02hhx" (core/sprintf.c)\<close>

definition hexdigit :: "nat \<Rightarrow> char" where
  "hexdigit d = (if d < 10 then char_of (48 + d) else char_of (97 + (d - 10)))"

function itoa_digits :: "nat \<Rightarrow> nat \<Rightarrow> char list" where
  \<comment> \<open>the first loop of \<open>itoa\<close>: the digits, least significant first. The conversions
      call it with the bases 2, 8, 10 and 16; a base below 2 is not called for.\<close>
  "itoa_digits uval base =
     (if uval = 0 \<or> base < 2 then []
      else hexdigit (uval mod base) # itoa_digits (uval div base) base)"
  by pat_completeness auto
termination
  by (relation "measure (\<lambda>(uval, base). uval)") auto

declare itoa_digits.simps [simp del]

definition itoa :: "nat \<Rightarrow> nat \<Rightarrow> nat \<Rightarrow> string" where
  \<comment> \<open>without flags: leading zeros up to the precision, then the digits in order\<close>
  "itoa uval base precision =
     (let d = itoa_digits uval base
      in rev (d @ replicate (precision - length d) (CHR ''0'')))"

definition format_02hhx :: "char \<Rightarrow> string" where
  \<comment> \<open>\<open>%02hhx\<close>: the argument as \<open>unsigned char\<close>, precision 1 by default, width 2, padded
      with zeros on the left (\<open>outpadded\<close> with the zero flag and an empty prefix)\<close>
  "format_02hhx ch =
     (let val = (of_char ch :: nat);
          digitbuf = itoa val 16 1;
          needwidth = length digitbuf;
          padlen = (if 2 > needwidth then 2 - needwidth else 0)
      in replicate padlen (CHR ''0'') @ digitbuf)"

section \<open>TTY line discipline (chrdev/tty.c)\<close>

text \<open>
  A TTY wraps a port device, which it reads with \<open>file_read(&tty->portdev, &ch, 1)\<close> and
  writes with \<open>file_write(&tty->portdev, src, count)\<close>. The device is seen through these
  two calls: \<open>rx\<close> is the list of the bytes it has ready, delivered one per read (a read
  with none ready fails with \<open>-EAGAIN\<close>, as \<open>serial_read\<close> does), and \<open>tx\<close> is the list
  of the bytes written to it so far. The input buffer is the list of its \<open>IBUFSZ\<close> bytes.
\<close>

definition IBUFSZ :: nat where "IBUFSZ = 256"
definition TTY_CT :: nat where "TTY_CT = 2"

definition TTY_ECHO :: u32 where "TTY_ECHO = 0x0001"
definition TTY_ECHOCTL :: u32 where "TTY_ECHOCTL = 0x0002"
definition TTY_COOKED :: u32 where "TTY_COOKED = 0x0004"

definition SP_NONE :: u32 where "SP_NONE = 0x0000"
definition SP_ENDLINE :: u32 where "SP_ENDLINE = 0x0001"
definition SP_ISINPUT :: u32 where "SP_ISINPUT = 0x0002"

definition CTRL_D :: char where "CTRL_D = CHR 0x04"
definition CTRL_U :: char where "CTRL_U = CHR 0x15"

definition MAJ_SERIAL :: nat where "MAJ_SERIAL = 2"

definition MAKEDEV :: "nat \<Rightarrow> nat \<Rightarrow> nat" where
  "MAKEDEV maj minor = (push_bit 8 maj) OR minor"

record tty =
  portdev :: "file"
  flags :: u32
  initialized :: bool
  ibuf_eol :: bool
  ibuf_eof :: bool
  ilen :: nat
  ibuf :: "char list"

definition ISCOOKED :: "tty \<Rightarrow> bool" where
  "ISCOOKED t = (flags t AND TTY_COOKED \<noteq> 0)"

definition isprint :: "int \<Rightarrow> bool" where
  "isprint c = (0x20 \<le> c \<and> c \<le> 0x7e)"

definition port_write :: "char list \<Rightarrow> char list \<Rightarrow> char list" where
  "port_write tx src = tx @ src"

definition tty_open_dev ::
  "(nat \<Rightarrow> file_operations) \<Rightarrow> (nat \<rightharpoonup> nat) \<Rightarrow> (nat \<Rightarrow> tty) \<Rightarrow> file \<Rightarrow> nat
     \<Rightarrow> (int \<times> file \<times> (nat \<Rightarrow> tty)) option" where
  \<comment> \<open>\<open>ttys\<close> has the \<open>TTY_CT\<close> elements 0 and 1. \<open>None\<close>: the code reads
      \<open>tty->initialized\<close> through \<open>&ttys[min]\<close> outside the array.\<close>
  "tty_open_dev fops_at chrdev_drivers ttys file minor =
     (if minor > TTY_CT then Some (- ENODEV, file, ttys)
      else if \<not> minor < TTY_CT then None
      else
        (let t = ttys minor;
             file1 = file \<lparr> f_driver_data := Some minor \<rparr>
         in if initialized t then Some (0, file1, ttys)
            else
              (let (portres, pf) =
                     (if minor = 0 then (- ENODEV, portdev t)
                      else file_open_dev fops_at chrdev_drivers (MAKEDEV MAJ_SERIAL minor))
               in if portres < 0 then Some (portres, file1, ttys (minor := t \<lparr> portdev := pf \<rparr>))
                  else Some (0, file1,
                             ttys (minor := t \<lparr> portdev := pf, ilen := 0,
                                                initialized := True \<rparr>)))))"

definition echoc :: "tty \<Rightarrow> char \<Rightarrow> char list \<Rightarrow> char list" where
  "echoc t ch tx =
     (if flags t AND TTY_ECHO = 0 then tx
      else if flags t AND TTY_ECHOCTL = 0 \<or> isprint (schar ch)
                \<or> strchr [CHR 0x0A, CHR 0x0D, CHR 0x09] ch \<noteq> None
        then port_write tx [ch]
      else if 0x00 \<le> schar ch \<and> schar ch < 0x1f
        then port_write tx [CHR ''^'', char_of (schar ch + 0x40)]
      else if schar ch = 0x7f then port_write tx ''^?''
      else port_write tx ([CHR 0x5C, CHR ''x''] @ format_02hhx ch))"

definition echos :: "tty \<Rightarrow> string \<Rightarrow> char list \<Rightarrow> char list" where
  "echos t str tx =
     (if flags t AND TTY_ECHO \<noteq> 0 then port_write tx (take (strlen str) str) else tx)"

definition add_to_inbuf :: "tty \<Rightarrow> char \<Rightarrow> char list \<Rightarrow> int \<times> tty \<times> char list" where
  "add_to_inbuf t ch tx =
     (if ilen t = IBUFSZ then (- ENOBUFS, t, tx)
      else (let t' = t \<lparr> ibuf := (ibuf t) [ilen t := ch], ilen := ilen t + 1 \<rparr>
            in (0, t', echoc t' ch tx)))"

definition backspace :: "tty \<Rightarrow> char list \<Rightarrow> tty \<times> char list" where
  "backspace t tx =
     (if ilen t = 0 then (t, tx)
      else (let t' = t \<lparr> ilen := ilen t - 1 \<rparr>
            in (t', echos t' [CHR 0x08, CHR '' '', CHR 0x08] tx)))"

fun clearline_loop :: "nat \<Rightarrow> tty \<Rightarrow> char list \<Rightarrow> tty \<times> char list" where
  "clearline_loop 0 t tx = (t, tx)"
| "clearline_loop (Suc n) t tx = (let (t', tx') = backspace t tx in clearline_loop n t' tx')"

definition clearline :: "tty \<Rightarrow> char list \<Rightarrow> tty \<times> char list" where
  "clearline t tx = clearline_loop (ilen t) t tx"

definition on_eof :: "tty \<Rightarrow> char list \<Rightarrow> tty \<times> char list" where
  "on_eof t tx =
     (let t1 = t \<lparr> ibuf_eol := True \<rparr>
      in (if ilen t1 = 0 then t1 \<lparr> ibuf_eof := True \<rparr> else t1, tx))"

record specialchar =
  sp_ch :: char
  special_echo :: "string option"
  sp_flags :: u32
  onrecv :: "(tty \<Rightarrow> char list \<Rightarrow> tty \<times> char list) option"

definition SPECIALCHARS :: "specialchar list" where
  "SPECIALCHARS =
     [ \<lparr> sp_ch = CHR 0x0A, special_echo = None, sp_flags = SP_ENDLINE OR SP_ISINPUT,
         onrecv = None \<rparr>,
       \<lparr> sp_ch = CTRL_D, special_echo = Some [CHR ''^'', CHR ''D'', CHR 0x0A],
         sp_flags = SP_ENDLINE, onrecv = Some on_eof \<rparr>,
       \<lparr> sp_ch = CHR 0x08, special_echo = None, sp_flags = SP_NONE, onrecv = Some backspace \<rparr>,
       \<lparr> sp_ch = CHR 0x7F, special_echo = None, sp_flags = SP_NONE, onrecv = Some backspace \<rparr>,
       \<lparr> sp_ch = CTRL_U, special_echo = None, sp_flags = SP_NONE, onrecv = Some clearline \<rparr> ]"

definition tty_inchar :: "tty \<Rightarrow> char \<Rightarrow> char list \<Rightarrow> int \<times> tty \<times> char list" where
  "tty_inchar t ch tx =
     (if \<not> ISCOOKED t then add_to_inbuf t ch tx
      else if ibuf_eol t then (- ENOBUFS, t, tx)
      else
        (case find (\<lambda>spch. ch = sp_ch spch) SPECIALCHARS of
           Some spch \<Rightarrow>
             (let t1 = (if sp_flags spch AND SP_ENDLINE \<noteq> 0 then t \<lparr> ibuf_eol := True \<rparr> else t);
                  tx1 = (case special_echo spch of Some e \<Rightarrow> echos t1 e tx | None \<Rightarrow> tx);
                  (t2, tx2) = (case onrecv spch of Some h \<Rightarrow> h t1 tx1 | None \<Rightarrow> (t1, tx1))
              in if sp_flags spch AND SP_ISINPUT \<noteq> 0 then add_to_inbuf t2 ch tx2
                 else (0, t2, tx2))
         | None \<Rightarrow> add_to_inbuf t ch tx))"

fun tty_fill ::
  "tty \<Rightarrow> char list \<Rightarrow> char list \<Rightarrow> int
     \<Rightarrow> (int \<times> tty \<times> char list \<times> char list) + (int \<times> tty \<times> char list \<times> char list)" where
  \<comment> \<open>the \<open>while\<close> loop of \<open>tty_read\<close>, with \<open>portres\<close> the result of the last read of
      the port: a read with no byte ready gives \<open>-EAGAIN\<close> and the loop breaks, a read
      with a byte ready gives 1 and the byte. \<open>Inl\<close>: \<open>tty_inchar\<close> failed and \<open>tty_read\<close>
      returns its result. \<open>Inr\<close>: the loop ended, with the last \<open>portres\<close>.\<close>
  "tty_fill t [] tx portres =
     (if ilen t < IBUFSZ \<and> \<not> ibuf_eol t then Inr (- EAGAIN, t, [], tx)
      else Inr (portres, t, [], tx))"
| "tty_fill t (ch # rx) tx portres =
     (if ilen t < IBUFSZ \<and> \<not> ibuf_eol t
      then (case tty_inchar t ch tx of
              (res, t', tx') \<Rightarrow>
                if res < 0 then Inl (res, t', rx, tx')
                else tty_fill t' rx tx' 1)
      else Inr (portres, t, ch # rx, tx))"

definition tty_read ::
  "tty \<Rightarrow> nat \<Rightarrow> char list \<Rightarrow> char list \<Rightarrow> int \<times> char list \<times> tty \<times> char list \<times> char list" where
  \<comment> \<open>the value returned, the bytes stored at \<open>dst\<close>, the TTY, and the port's \<open>rx\<close> and
      \<open>tx\<close> after the call\<close>
  "tty_read t count rx tx =
     (case tty_fill t rx tx (- EAGAIN) of
        Inl (res, t1, rx1, tx1) \<Rightarrow> (res, [], t1, rx1, tx1)
      | Inr (portres, t1, rx1, tx1) \<Rightarrow>
          if ilen t1 = 0 then
            (if portres = 0 then (0, [], t1, rx1, tx1)
             else if ISCOOKED t1 \<and> ibuf_eof t1
               then (0, [], t1 \<lparr> ibuf_eof := False, ibuf_eol := False \<rparr>, rx1, tx1)
             else (- EAGAIN, [], t1, rx1, tx1))
          else if ISCOOKED t1 \<and> \<not> ibuf_eol t1 then (- EAGAIN, [], t1, rx1, tx1)
          else
            (let retct = (if ilen t1 \<le> count then ilen t1 else count);
                 dst = take retct (ibuf t1);
                 moved = take (ilen t1 - retct) (drop retct (ibuf t1))
                           @ drop (ilen t1 - retct) (ibuf t1);
                 t2 = t1 \<lparr> ibuf := moved, ilen := ilen t1 - retct \<rparr>;
                 t3 = (if ilen t2 = 0 then t2 \<lparr> ibuf_eol := False \<rparr> else t2)
             in (int retct, dst, t3, rx1, tx1)))"

definition tty_zero :: tty where
  \<comment> \<open>an element of the static array \<open>ttys[TTY_CT] = {}\<close>\<close>
  "tty_zero = \<lparr> portdev = file_zero, flags = 0, initialized = False, ibuf_eol = False,
                ibuf_eof = False, ilen = 0, ibuf = replicate IBUFSZ NUL \<rparr>"

section \<open>Properties\<close>

lemmas errno_defs =
  ENOMEM_def ENOTSUP_def EINVAL_def EBUSY_def EAGAIN_def ENOBUFS_def ENODEV_def ENOENT_def

subsection \<open>Registration: what the two registries return\<close>

lemma fs_register_twice:
  assumes "0 < fstypeid" "fstypeid < FSTYPES_MAX" "tbl (unat fstypeid) = None"
  shows "fs_register tbl fstypeid (Some ops) = (0, tbl (unat fstypeid \<mapsto> ops))"
    and "fs_register (tbl (unat fstypeid \<mapsto> ops)) fstypeid (Some ops)
           = (0, tbl (unat fstypeid \<mapsto> ops))"
  using assms by (auto simp add: fs_register_def fs_register_inner_def)

lemma fs_register_busy:
  assumes "0 < fstypeid" "fstypeid < FSTYPES_MAX" "tbl (unat fstypeid) = Some ops" "other \<noteq> Some ops"
  shows "fs_register tbl fstypeid other = (- EBUSY, tbl)"
  using assms by (auto simp add: fs_register_def fs_register_inner_def)

lemma fs_register_invalid:
  assumes "fstypeid = 0 \<or> FSTYPES_MAX \<le> fstypeid"
  shows "fs_register tbl fstypeid ops = (- EINVAL, tbl)"
  using assms by (auto simp add: fs_register_def fs_register_inner_def)

lemma chrdev_register_inner_twice:
  assumes "0 < maj" "maj < MAJORS_MAX" "tbl (unat maj) = None"
  shows "chrdev_register_inner tbl maj (Some ops) = (0, tbl (unat maj \<mapsto> ops))"
    and "chrdev_register_inner (tbl (unat maj \<mapsto> ops)) maj (Some ops)
           = (0, tbl (unat maj \<mapsto> ops))"
  using assms by (auto simp add: chrdev_register_inner_def)

lemma chrdev_register_inner_busy:
  assumes "0 < maj" "maj < MAJORS_MAX" "tbl (unat maj) = Some ops" "other \<noteq> Some ops"
  shows "chrdev_register_inner tbl maj other = (- EBUSY, tbl)"
  using assms by (auto simp add: chrdev_register_inner_def)

lemma chrdev_register_table:
  "snd (chrdev_register tbl maj fops) = snd (chrdev_register_inner tbl maj fops)"
  by (simp add: chrdev_register_def split: prod.splits)

text \<open>
  C3. Registering twice with the same operations gives OK both times, registering other
  operations for a taken identifier gives busy and leaves the table as it was, and an
  identifier out of range gives invalid: \<open>fs_register\<close> does so (lemmas above), and
  \<open>chrdev_register_inner\<close> computes the same results, but \<open>chrdev_register\<close> returns the
  major number instead of the result. With major 3 taken by operations table 1,
  registering table 2 returns 3 where the result is \<open>-EBUSY\<close>, the first registration
  returns 3 where the result is 0, and the out-of-range major 9 returns 9 where the
  result is \<open>-EINVAL\<close>.
\<close>

theorem chrdev_register_returns_major:
  "fst (chrdev_register Map.empty 3 (Some (1::nat))) = 3
   \<and> fst (chrdev_register_inner Map.empty 3 (Some (1::nat))) = 0
   \<and> fst (chrdev_register (snd (chrdev_register Map.empty 3 (Some (1::nat)))) 3 (Some 2)) = 3
   \<and> fst (chrdev_register_inner (snd (chrdev_register Map.empty 3 (Some (1::nat)))) 3 (Some 2))
       = - EBUSY
   \<and> fst (chrdev_register Map.empty 9 (Some (1::nat))) = 9
   \<and> fst (chrdev_register_inner Map.empty 9 (Some (1::nat))) = - EINVAL"
  by (simp add: chrdev_register_def chrdev_register_inner_def MAJORS_MAX_def errno_defs
      split: prod.splits)

subsection \<open>The mount list\<close>

lemma fs_mountdev_appends:
  assumes "fs_mountdev fsops_at st blockdev fstypeid mpath = (res, st')" and "0 \<le> res"
  shows "\<exists>i. sb_alloc (superblocks st) = Some i \<and> vfs_mount_list st' = vfs_mount_list st @ [i]"
  using assms
  by (auto simp: fs_mountdev_def vfs_mount_list_add_def Let_def errno_defs
      split: option.splits prod.splits if_splits)

text \<open>
  C1. After successful \<open>fs_mountdev\<close> calls the mount list is sorted ascending by
  mountpath. The code does not keep it so: \<open>vfs_mount_list_add\<close> walks to the first entry
  with a greater mountpath and then links the new superblock at the tail of the list, not
  before that entry. Mounting "/bin" and then "/" succeeds twice; the walk for "/" stops
  at the entry "/bin" (pool index 0), and the list is "/bin", "/", where
  \<open>strcmp("/bin", "/")\<close> is positive.
\<close>

theorem mount_list_not_sorted:
  "fst (fs_mountdev plain_fsops vfs_with_driver 1024 3 ''/bin'') = 0
   \<and> fst (fs_mountdev plain_fsops bin_mounted 1025 3 ''/'') = 0
   \<and> mount_list_scan (superblocks bin_mounted) (vfs_mount_list bin_mounted) ''/'' = Some 0
   \<and> mount_paths bin_then_root_mounted = [''/bin'', ''/'']
   \<and> strcmp ''/bin'' ''/'' = 1"
  by code_simp

subsection \<open>Mount lookup\<close>

lemma strcmp_same: "strcmp s s = 0"
proof (induction s)
  case Nil
  show ?case
    by (subst strcmp.simps) (simp add: deref_def cmp_tail_def)
next
  case (Cons c s)
  show ?case
    by (subst strcmp.simps) (simp add: deref_def cmp_tail_def Cons.IH)
qed

lemma find_mount_for_path_sorted:
  assumes "sorted_wrt (\<lambda>a b. strcmp a b \<le> 0) (map (\<lambda>sb. s_mountpath (sbs sb)) mount_list)"
    and "find_mount_for_path sbs mount_list abspath = Some i"
    and "j \<in> set mount_list" and "strstr abspath (s_mountpath (sbs j)) = Some 0"
  shows "strcmp (s_mountpath (sbs j)) (s_mountpath (sbs i)) \<le> 0"
  using assms
proof (induction mount_list rule: rev_induct)
  case Nil
  then show ?case by simp
next
  case (snoc x xs)
  show ?case
  proof (cases "strstr abspath (s_mountpath (sbs x)) = Some 0")
    case True
    then have i: "i = x"
      using snoc.prems(2) by (simp add: find_mount_for_path_def)
    show ?thesis
      using snoc.prems(1,3) i by (auto simp: sorted_wrt_append strcmp_same)
  next
    case False
    then have f: "find_mount_for_path sbs xs abspath = Some i"
      using snoc.prems(2) by (simp add: find_mount_for_path_def)
    have j: "j \<in> set xs"
      using snoc.prems(3,4) False by auto
    show ?thesis
      using snoc.IH[OF _ f j snoc.prems(4)] snoc.prems(1) by (simp add: sorted_wrt_append)
  qed
qed

lemma find_mount_root_then_bin:
  "mount_paths root_then_bin_mounted = [''/'', ''/bin'']
   \<and> find_mount_for_path (superblocks root_then_bin_mounted)
         (vfs_mount_list root_then_bin_mounted) ''/bin/hello'' = Some 1
   \<and> s_mountpath (superblocks root_then_bin_mounted 1) = ''/bin''
   \<and> path_strip_prefix (Some ''/bin/hello'') (Some ''/bin'') = Some ''hello''"
  by code_simp

text \<open>
  C2. \<open>find_mount_for_path(p)\<close> returns the mount with the greatest mountpath that is a
  prefix of \<open>p\<close>; with mounts "/" and "/bin", "/bin/hello" goes to "/bin" with the relative
  path "hello". The lookup returns the last entry of the list that is a prefix, and the
  list is in mount order, not sorted (see C1): with "/bin" mounted before "/", both
  mountpaths are prefixes of "/bin/hello" and the lookup returns the mount of "/" (pool
  index 1), for which \<open>path_strip_prefix\<close> gives the relative path "bin/hello".
\<close>

theorem find_mount_for_path_not_longest:
  "mount_paths bin_then_root_mounted = [''/bin'', ''/'']
   \<and> strstr ''/bin/hello'' ''/bin'' = Some 0
   \<and> strstr ''/bin/hello'' ''/'' = Some 0
   \<and> find_mount_for_path (superblocks bin_then_root_mounted)
         (vfs_mount_list bin_then_root_mounted) ''/bin/hello'' = Some 1
   \<and> s_mountpath (superblocks bin_then_root_mounted 1) = ''/''
   \<and> path_strip_prefix (Some ''/bin/hello'') (Some ''/'') = Some ''bin/hello''"
  by code_simp

subsection \<open>Ramdisk reads\<close>

lemma to_long_id: "is_long x \<Longrightarrow> to_long x = x"
  by (simp add: to_long_def is_long_def)

lemma is_long_to_long: "is_long (to_long x)"
  by (simp add: to_long_def is_long_def)

lemma ramdisk_copy_Some:
  assumes "0 \<le> off"
  shows "ramdisk_copy mem (Some r) fsize count i off stored =
           Some (i + min (count - i) (nat (fsize - off)),
                 off + int (min (count - i) (nat (fsize - off))),
                 stored @ map (\<lambda>k. mem (addr r + nat off + k))
                               [0 ..< min (count - i) (nat (fsize - off))])"
  using assms
proof (induction mem "Some r" fsize count i off stored rule: ramdisk_copy.induct)
  case (1 mem fsize count i off stored)
  show ?case
  proof (cases "i < count \<and> off < fsize")
    case False
    then show ?thesis
      by (subst ramdisk_copy.simps) auto
  next
    case True
    let ?n = "min (count - Suc i) (nat (fsize - (off + 1)))"
    have n: "min (count - i) (nat (fsize - off)) = Suc ?n"
      using True "1.prems" by (auto simp: min_def)
    have off': "nat (off + 1) = Suc (nat off)"
      using "1.prems" by simp
    have IH: "ramdisk_copy mem (Some r) fsize count (Suc i) (off + 1)
                (stored @ [mem (addr r + nat off)]) =
              Some (Suc i + ?n, off + 1 + int ?n,
                    (stored @ [mem (addr r + nat off)]) @
                      map (\<lambda>k. mem (addr r + nat (off + 1) + k)) [0 ..< ?n])"
      using "1.hyps"[OF True refl] "1.prems" by simp
    show ?thesis
      apply (subst ramdisk_copy.simps)
      using True apply (simp add: IH n off' map_upt_Suc del: upt_Suc)
      done
  qed
qed

lemma ramdisk_open_dev_ok:
  assumes "ramdisk_open_dev ramdisks f0 minor = (0, f)"
  shows "f_driver_data f = Some minor" and "is_long (f_size (f_stat f))"
    and "f_size (f_stat f) = to_long (int (rd_size (ramdisks minor)))"
  using assms
  by (auto simp: ramdisk_open_dev_def Let_def errno_defs is_long_to_long split: if_splits)

text \<open>
  C7. For a file \<open>f\<close> opened by \<open>ramdisk_open_dev\<close> (which snapshots the size into
  \<open>f_size\<close>) and every read with count \<open>count\<close> at offset \<open>off\<close>: the offset is first
  clamped to 0 when negative; when it is at or past the size the read returns 0 and
  stores nothing; otherwise exactly \<open>min(count, size - pos)\<close> bytes are stored, they are
  the bytes of the ramdisk from offset \<open>pos\<close> on, the offset is advanced by that number,
  and that number is returned.
\<close>

theorem ramdisk_read_bounded:
  assumes "ramdisk_open_dev ramdisks f0 minor = (0, f)"
  shows "ramdisk_read ramdisks mem f count off =
           (let fsize = f_size (f_stat f);
                pos = (if off < 0 then 0 else off);
                n = min count (nat (fsize - pos))
            in if pos \<ge> fsize then Some (0, pos, [])
               else Some (int n, pos + int n,
                          map (\<lambda>k. mem (addr (ramdisks minor) + nat pos + k)) [0 ..< n]))"
proof -
  let ?fsize = "f_size (f_stat f)"
  let ?pos = "if off < 0 then 0 else off"
  let ?n = "min count (nat (?fsize - ?pos))"
  have dd: "f_driver_data f = Some minor" and long: "is_long ?fsize"
    using ramdisk_open_dev_ok[OF assms] by simp_all
  have pos0: "0 \<le> ?pos" by simp
  have copy: "ramdisk_copy mem (Some (ramdisks minor)) ?fsize count 0 ?pos [] =
                Some (?n, ?pos + int ?n,
                      map (\<lambda>k. mem (addr (ramdisks minor) + nat ?pos + k)) [0 ..< ?n])"
    using ramdisk_copy_Some[OF pos0, of mem "ramdisks minor" ?fsize count 0 "[]"] by simp
  have "int ?n \<le> max 0 ?fsize" by (auto simp: min_def)
  then have "is_long (int ?n)"
    using long by (auto simp: is_long_def)
  then have ret: "to_long (int ?n) = int ?n"
    by (rule to_long_id)
  show ?thesis
    unfolding ramdisk_read_def Let_def dd option.map copy using ret by simp
qed

theorem ramdisk_read_bounded_witness:
  "ramdisk_open_dev one_ramdisk file_zero 0 = (0, snd (ramdisk_open_dev one_ramdisk file_zero 0))
   \<and> ramdisk_read one_ramdisk disk_mem (snd (ramdisk_open_dev one_ramdisk file_zero 0)) 5 510
       = Some (2, 512, [disk_mem 4606, disk_mem 4607])"
proof -
  have h: "ramdisk_open_dev one_ramdisk file_zero 0
             = (0, snd (ramdisk_open_dev one_ramdisk file_zero 0))"
    by (simp add: ramdisk_open_dev_def one_ramdisk_def RAMDISKS_MAX_def)
  have s: "f_size (f_stat (snd (ramdisk_open_dev one_ramdisk file_zero 0))) = 512"
    by (simp add: ramdisk_open_dev_def one_ramdisk_def RAMDISKS_MAX_def to_long_def)
  show ?thesis
    using h ramdisk_read_bounded[OF h, of disk_mem 5 510]
    by (simp add: s one_ramdisk_def Let_def upt_rec)
qed

lemma ramdisk_size_snapshot:
  assumes "ramdisk_open_dev ramdisks f0 minor = (0, f)" and "rd_size (ramdisks minor) < 2147483648"
  shows "f_size (f_stat f) = int (rd_size (ramdisks minor))"
  using ramdisk_open_dev_ok(3)[OF assms(1)] assms(2) by (simp add: to_long_def)

subsection \<open>Reads of a file of a CPIO archive\<close>

lemma archive_file_eq:
  "archive_file = \<lparr> f_stat = \<lparr> f_ino = 0, f_type = DT_CHR, f_rdev = 1024, f_size = 512 \<rparr>,
                     f_pos = 0, f_op = Some 4, f_driver_data = Some 0 \<rparr>"
  by (simp add: archive_file_def file_open_dev_def file_open_dev_inner_def dev_fops_def
      ramdisk_ops_def ramdisk_open_dev_def one_ramdisk_def file_zero_def MAJORS_MAX_def
      RAMDISKS_MAX_def to_long_def Let_def)

lemma archive_pread:
  assumes "0 \<le> aoff" "aoff < 512" "0 < count"
  shows "file_pread dev_fops (Some archive_file) True count aoff =
           Some (int (min count (nat (512 - aoff))),
                 map (\<lambda>k. disk_mem (4096 + nat aoff + k)) [0 ..< min count (nat (512 - aoff))])"
proof -
  have "int (min count (nat (512 - aoff))) \<le> 512" using assms by (auto simp: min_def)
  then have "to_long (int (min count (nat (512 - aoff)))) = int (min count (nat (512 - aoff)))"
    by (simp add: to_long_def)
  then show ?thesis
  using assms
  by (simp add: file_pread_def archive_file_eq dev_fops_def ramdisk_ops_def ramdisk_read_def
      ramdisk_copy_Some one_ramdisk_def Let_def)
qed

lemma cpio_file_read_at_own_position:
  "file_read cpio_fops (Some (hello_file \<lparr> f_pos := 4 \<rparr>)) True 16
     = Some (4, map disk_mem [4328 ..< 4332], Some (hello_file \<lparr> f_pos := 8 \<rparr>))"
  by (simp add: file_read_def cpio_fops_def cpio_file_ops_def cpio_file_read_def
      hello_file_def hello_cfdatas_def to_long_def to_size_def archive_pread Let_def upt_rec)

text \<open>
  C4. Every read through an open CPIO file, also \<open>file_pread\<close> with an offset of the
  caller, returns at most \<open>size - *pos\<close> bytes. The code clamps the count to
  \<open>f_size - f_pos\<close>, with the position of the file and not the offset read at: for the
  file "hello" of 8 bytes (data at 228 in the archive) at position 0,
  \<open>file_pread(f, dst, 16, 4)\<close> returns 8 bytes, the bytes 232 to 239 of the archive, where
  4 bytes remain in the file from offset 4; the last 4 are bytes of the next header.
\<close>

theorem cpio_pread_past_end_of_file:
  "file_pread cpio_fops (Some hello_file) True 16 4 = Some (8, map disk_mem [4328 ..< 4336])
   \<and> f_size (f_stat hello_file) - 4 = 4
   \<and> foff (hello_cfdatas 0) + 4 = 232 \<and> addr (one_ramdisk 0) + 232 = 4328"
  by (simp add: file_pread_def [of cpio_fops] cpio_fops_def cpio_file_ops_def cpio_file_read_def
      hello_file_def hello_cfdatas_def to_long_def to_size_def archive_pread Let_def upt_rec
      one_ramdisk_def)

subsection \<open>Seeking\<close>

text \<open>
  C6, as stated: \<open>file_lseek(f, 0, SEEK_CUR)\<close> returns the current position. It does not:
  the ramdisk driver has no \<open>lseek\<close> entry, and for its file at position 5 the call
  returns 0.
\<close>

theorem file_lseek_cur_not_position:
  "f_pos (archive_file \<lparr> f_pos := 5 \<rparr>) = 5
   \<and> lseek (dev_fops 4) = None
   \<and> fst (file_lseek dev_fops (Some (archive_file \<lparr> f_pos := 5 \<rparr>)) 0 SEEK_CUR) = 0
   \<and> fst (file_lseek dev_fops (Some (archive_file \<lparr> f_pos := 5 \<rparr>)) 0 SEEK_CUR)
       \<noteq> f_pos (archive_file \<lparr> f_pos := 5 \<rparr>)"
  by (simp add: file_lseek_def archive_file_eq dev_fops_def ramdisk_ops_def SEEK_CUR_def
      SEEK_SET_def to_long_def)

text \<open>
  C6, amended. For every open file \<open>f\<close> whose driver does not alter the position in its
  own \<open>lseek\<close> entry, \<open>file_lseek(f, 0, SEEK_CUR)\<close> leaves \<open>f_pos\<close> unchanged and returns
  what the driver's \<open>lseek\<close> returned, or 0 when the driver has no \<open>lseek\<close> entry.
\<close>

theorem file_lseek_cur_zero:
  assumes "f_op f = Some p" and "is_long (f_pos f)"
    and "\<And>h. lseek (fops_at p) = Some h \<Longrightarrow> f_pos (snd (h f 0 SEEK_CUR)) = f_pos f"
  shows "\<exists>f'. file_lseek fops_at (Some f) 0 SEEK_CUR =
                 ((case lseek (fops_at p) of None \<Rightarrow> 0 | Some h \<Rightarrow> fst (h f 0 SEEK_CUR)), Some f')
              \<and> f_pos f' = f_pos f"
proof (cases "lseek (fops_at p)")
  case None
  then show ?thesis
    using assms(1,2)
    by (simp add: file_lseek_def SEEK_CUR_def SEEK_SET_def to_long_id)
next
  case (Some h)
  obtain res fl1 where h: "h f 0 SEEK_CUR = (res, fl1)"
    by (cases "h f 0 SEEK_CUR")
  have pos: "f_pos fl1 = f_pos f"
    using assms(3)[OF Some] h by simp
  show ?thesis
    using assms(1,2) Some h pos
    by (simp add: file_lseek_def SEEK_CUR_def SEEK_SET_def to_long_id)
qed

theorem file_lseek_cur_zero_witness:
  "f_op (archive_file \<lparr> f_pos := 5 \<rparr>) = Some 4 \<and> is_long (f_pos (archive_file \<lparr> f_pos := 5 \<rparr>))
   \<and> lseek (dev_fops 4) = None
   \<and> (\<exists>f'. file_lseek dev_fops (Some (archive_file \<lparr> f_pos := 5 \<rparr>)) 0 SEEK_CUR = (0, Some f')
            \<and> f_pos f' = 5)"
proof -
  have a: "f_op (archive_file \<lparr> f_pos := 5 \<rparr>) = Some 4"
    by (simp add: archive_file_eq)
  have b: "is_long (f_pos (archive_file \<lparr> f_pos := 5 \<rparr>))"
    by (simp add: is_long_def)
  have c: "lseek (dev_fops 4) = None"
    by (simp add: dev_fops_def ramdisk_ops_def)
  have e: "\<exists>f'. file_lseek dev_fops (Some (archive_file \<lparr> f_pos := 5 \<rparr>)) 0 SEEK_CUR =
                 ((case lseek (dev_fops 4) of None \<Rightarrow> 0
                   | Some h \<Rightarrow> fst (h (archive_file \<lparr> f_pos := 5 \<rparr>) 0 SEEK_CUR)), Some f')
              \<and> f_pos f' = f_pos (archive_file \<lparr> f_pos := 5 \<rparr>)"
    by (rule file_lseek_cur_zero[OF a b]) (simp add: c)
  show ?thesis
    using e a b c by simp
qed

subsection \<open>Joining paths\<close>

lemma outstr_at:
  assumes "NUL \<notin> set str" and "length str \<le> length rest"
  shows "outstr (p @ rest) (length p) (length p + length rest) str
           = (p @ str @ drop (length str) rest, length p + length str)"
  using assms
proof (induction str arbitrary: p rest)
  case Nil
  then show ?case by simp
next
  case (Cons c cs)
  then obtain r rest' where rest: "rest = r # rest'"
    by (cases rest) auto
  have IH: "outstr ((p @ [c]) @ rest') (length (p @ [c])) (length (p @ [c]) + length rest') cs
              = ((p @ [c]) @ cs @ drop (length cs) rest', length (p @ [c]) + length cs)"
    using Cons.prems rest by (intro Cons.IH) auto
  show ?case
    using Cons.prems IH by (auto simp add: rest outchar_def)
qed

lemma snprintf_s_at:
  assumes "NUL \<notin> set str" and "length str < length rest"
  shows "snprintf_s (p @ rest) (length p) (length rest) str
           = (p @ str @ NUL # drop (Suc (length str)) rest, int (length str))"
proof -
  have o: "outstr (p @ rest) (length p) (length p + length rest) str
             = (p @ str @ drop (length str) rest, length p + length str)"
    using assms by (intro outstr_at) auto
  have d: "drop (length str) rest = rest ! length str # drop (Suc (length str)) rest"
    using assms(2) by (simp add: Cons_nth_drop_Suc)
  have u: "(p @ str @ drop (length str) rest)[length p + length str := NUL]
             = p @ str @ NUL # drop (Suc (length str)) rest"
    by (subst d) (simp add: list_update_append)
  show ?thesis
    using assms(2) by (auto simp add: snprintf_s_def o u Let_def)
qed

lemma cstring_append_NUL:
  "NUL \<notin> set s \<Longrightarrow> cstring (s @ NUL # rest) = s"
  by (induction s) (auto simp: cstring_def)


lemma snprintf_s_step:
  assumes "NUL \<notin> set str" and "buf = p @ rest" and "length buf = dstsz"
    and "length str < length rest"
  shows "snprintf_s buf (length p) (BUFREM (length p) dstsz) str
           = (p @ str @ NUL # drop (Suc (length str)) rest, int (length str))"
proof -
  have "BUFREM (length p) dstsz = length rest"
    using assms(2,3,4) by (auto simp: BUFREM_def)
  then show ?thesis
    using snprintf_s_at[OF assms(1,4), of p] assms(2) by simp
qed

lemma deref_slash: "(deref s = CHR ''/'') = starts_slash s"
  by (cases s) (auto simp: deref_def starts_slash_def NUL_def)

lemma path_join_abs:
  assumes "NUL \<notin> set b" and "length dst = dstsz" and "starts_slash b" and "length b < dstsz"
  shows "path_join dst dstsz (Some a) (Some b)
           = Some (int (length b), b @ NUL # drop (Suc (length b)) dst)"
proof -
  have s: "snprintf_s dst (length ([] :: char list)) (BUFREM (length ([] :: char list)) dstsz) b
             = ([] @ b @ NUL # drop (Suc (length b)) dst, int (length b))"
    using assms by (intro snprintf_s_step) auto
  show ?thesis
    using assms(3) s by (simp add: path_join_def deref_slash)
qed

lemma path_join_empty:
  assumes "NUL \<notin> set b" and "length dst = dstsz" and "\<not> starts_slash b" and "length b < dstsz"
  shows "\<exists>rest. path_join dst dstsz (Some []) (Some b) = Some (int (length b), b @ NUL # rest)"
proof -
  have s1: "snprintf_s dst (length ([] :: char list)) (BUFREM (length ([] :: char list)) dstsz) []
              = ([] @ [] @ NUL # drop (Suc (length ([] :: char list))) dst, int (length ([] :: char list)))"
    using assms by (intro snprintf_s_step) auto
  let ?buf1 = "NUL # drop (Suc 0) dst"
  have l1: "length ?buf1 = dstsz"
    using assms(2,4) by auto
  have s2: "snprintf_s ?buf1 (length ([] :: char list)) (BUFREM (length ([] :: char list)) dstsz) b
              = ([] @ b @ NUL # drop (Suc (length b)) ?buf1, int (length b))"
    using assms l1 by (intro snprintf_s_step) auto
  show ?thesis
    using assms(3) s1 s2 by (simp add: path_join_def deref_slash)
qed

lemma path_join_rel:
  assumes "NUL \<notin> set a" and "NUL \<notin> set b" and "length dst = dstsz" and "\<not> starts_slash b"
    and "a \<noteq> []"
    and "length a + length (if ends_slash a then [] else ''/'') + length b < dstsz"
  shows "\<exists>rest. path_join dst dstsz (Some a) (Some b)
           = Some (int (length a + length (if ends_slash a then [] else ''/'') + length b),
                   (a @ (if ends_slash a then [] else ''/'') @ b) @ NUL # rest)"
proof -
  have s1: "snprintf_s dst (length ([] :: char list)) (BUFREM (length ([] :: char list)) dstsz) a
              = ([] @ a @ NUL # drop (Suc (length a)) dst, int (length a))"
    using assms by (intro snprintf_s_step) (auto split: if_splits)
  let ?rest1 = "NUL # drop (Suc (length a)) dst"
  let ?buf1 = "a @ ?rest1"
  have l1: "length ?buf1 = dstsz"
    using assms(3,6) by (auto split: if_splits)
  have lr1: "length ?rest1 = dstsz - length a"
    using assms(3,6) by (auto split: if_splits)
  have at: "?buf1 ! (length a - 1) = last a"
    using assms(5) by (simp add: nth_append last_conv_nth)
  show ?thesis
  proof (cases "ends_slash a")
    case True
    have s3: "snprintf_s ?buf1 (length a) (BUFREM (length a) dstsz) b
                = (a @ b @ NUL # drop (Suc (length b)) ?rest1, int (length b))"
      using assms True l1 lr1 by (intro snprintf_s_step) auto
    show ?thesis
      using assms(4,5,6) True s1 s3 at
      by (simp add: path_join_def deref_slash ends_slash_def Let_def)
  next
    case False
    have s2: "snprintf_s ?buf1 (length a) (BUFREM (length a) dstsz) ''/''
                = (a @ ''/'' @ NUL # drop (Suc (length ''/'')) ?rest1, int (length ''/''))"
      using assms False l1 lr1 by (intro snprintf_s_step) (auto simp: NUL_def)
    let ?rest2 = "NUL # drop (Suc (Suc 0)) ?rest1"
    let ?buf2 = "(a @ ''/'') @ ?rest2"
    have l2: "length ?buf2 = dstsz"
      using assms(3,6) False by auto
    have s3: "snprintf_s ?buf2 (length (a @ ''/'')) (BUFREM (length (a @ ''/'')) dstsz) b
                = ((a @ ''/'') @ b @ NUL # drop (Suc (length b)) ?rest2, int (length b))"
      using assms False l2 by (intro snprintf_s_step) auto
    show ?thesis
      using assms(4,5,6) False s1 s2 s3 at
      by (simp add: path_join_def deref_slash ends_slash_def Let_def)
  qed
qed

lemma path_join_cstring:
  assumes "NUL \<notin> set a" and "NUL \<notin> set b" and "length dst = dstsz"
    and "length (path_join_spec a b) < dstsz"
  shows "\<exists>dst'. path_join dst dstsz (Some a) (Some b)
                  = Some (int (length (path_join_spec a b)), dst')
               \<and> cstring dst' = path_join_spec a b"
proof -
  have n: "NUL \<notin> set (path_join_spec a b)"
    using assms(1,2) by (auto simp: path_join_spec_def NUL_def)
  consider "starts_slash b" | "\<not> starts_slash b" "a = []" | "\<not> starts_slash b" "a \<noteq> []"
    by blast
  then have "\<exists>rest. path_join dst dstsz (Some a) (Some b)
               = Some (int (length (path_join_spec a b)), path_join_spec a b @ NUL # rest)"
  proof cases
    case 1
    then show ?thesis
      using path_join_abs[OF assms(2,3) 1, of a] assms(4) by (simp add: path_join_spec_def)
  next
    case 2
    then show ?thesis
      using path_join_empty[OF assms(2,3) 2(1)] assms(4) by (simp add: path_join_spec_def)
  next
    case 3
    have "length a + length (if ends_slash a then [] else ''/'') + length b < dstsz"
      using assms(4) 3 by (auto simp: path_join_spec_def)
    from path_join_rel[OF assms(1,2,3) 3 this] show ?thesis
      using 3 by (auto simp: path_join_spec_def)
  qed
  then show ?thesis
    using n by (auto simp: cstring_append_NUL)
qed

lemma path_join_spec_splice:
  assumes "\<not> starts_slash b"
  shows "\<exists>sep. path_join_spec a b = a @ sep @ b \<and> (sep = ''/'' \<or> sep = [])
               \<and> ((sep = ''/'') = (a \<noteq> [] \<and> \<not> ends_slash a))
               \<and> \<not> (ends_slash a \<and> starts_slash (sep @ b))
               \<and> \<not> (ends_slash (a @ sep) \<and> starts_slash b)"
  using assms by (auto simp: path_join_spec_def starts_slash_def ends_slash_def)

text \<open>
  C9. For strings \<open>a\<close> and \<open>b\<close> whose join fits in the destination buffer (with its
  terminator), \<open>path_join\<close> leaves in the buffer the string \<open>r\<close> and returns its length,
  where: if \<open>b\<close> starts with "/", \<open>r\<close> is \<open>b\<close>; otherwise \<open>r\<close> is \<open>a\<close>, a separator and \<open>b\<close>,
  the separator is "/" iff \<open>a\<close> is non-empty and does not end with "/" and is empty
  otherwise, and neither junction has a "/" on both sides.
\<close>

theorem path_join_fits:
  assumes "NUL \<notin> set a" and "NUL \<notin> set b" and "length dst = dstsz"
    and "length (path_join_spec a b) < dstsz"
  shows "\<exists>dst' r. path_join dst dstsz (Some a) (Some b) = Some (int (length r), dst')
               \<and> cstring dst' = r \<and> r = path_join_spec a b
               \<and> (if starts_slash b then r = b
                   else (\<exists>sep. r = a @ sep @ b \<and> (sep = ''/'' \<or> sep = [])
                           \<and> ((sep = ''/'') = (a \<noteq> [] \<and> \<not> ends_slash a))
                           \<and> \<not> (ends_slash a \<and> starts_slash (sep @ b))
                           \<and> \<not> (ends_slash (a @ sep) \<and> starts_slash b)))"
proof (cases "starts_slash b")
  case True
  then show ?thesis
    using path_join_cstring[OF assms] by (auto simp: path_join_spec_def)
next
  case False
  then show ?thesis
    using path_join_cstring[OF assms] path_join_spec_splice[OF False, of a] by auto
qed

theorem path_join_fits_witness:
  "NUL \<notin> set ''/bin'' \<and> NUL \<notin> set ''hello'' \<and> length (replicate 16 (CHR ''x'')) = 16
   \<and> length (path_join_spec ''/bin'' ''hello'') < 16
   \<and> (\<exists>dst'. path_join (replicate 16 (CHR ''x'')) 16 (Some ''/bin'') (Some ''hello'')
                = Some (10, dst')
             \<and> cstring dst' = ''/bin/hello'')"
proof -
  have a: "NUL \<notin> set ''/bin''" and b: "NUL \<notin> set ''hello''"
    by (simp_all add: NUL_def)
  have c: "length (replicate 16 (CHR ''x'')) = 16"
    by simp
  have r: "path_join_spec ''/bin'' ''hello'' = ''/bin/hello''"
    by (simp add: path_join_spec_def starts_slash_def ends_slash_def)
  have d: "length (path_join_spec ''/bin'' ''hello'') < 16"
    by (simp add: r)
  show ?thesis
    using path_join_fits[OF a b c d] a b c d by (auto simp: r)
qed

subsection \<open>TTY: cooked editing\<close>

lemmas tty_defs = tty_inchar_def add_to_inbuf_def echoc_def echos_def backspace_def
  ISCOOKED_def SPECIALCHARS_def port_write_def isprint_def schar_def
  TTY_ECHO_def TTY_ECHOCTL_def TTY_COOKED_def SP_NONE_def SP_ENDLINE_def SP_ISINPUT_def
  CTRL_D_def CTRL_U_def IBUFSZ_def NUL_def

lemma ibuf_first_three:
  assumes "length (b :: char list) = IBUFSZ"
  obtains x0 x1 x2 rest where "b = x0 # x1 # x2 # rest"
proof -
  from assms obtain x0 b1 where 0: "b = x0 # b1" "length b1 = 255"
    by (cases b) (auto simp: IBUFSZ_def)
  then obtain x1 b2 where 1: "b1 = x1 # b2" "length b2 = 254"
    by (cases b1) auto
  then obtain x2 b3 where 2: "b2 = x2 # b3"
    by (cases b2) auto
  show ?thesis using 0 1 2 that by simp
qed

text \<open>
  C5. For a TTY with the flags \<open>ECHO|COOKED\<close> and an empty input buffer, when the port
  delivers the bytes "ab\\b\\bcd\\n", a read with a count of at least 3 writes exactly
  "ab\\b \\b\\b \\bcd\\n" to the port, returns the 3 bytes "cd\\n" and leaves the input buffer
  empty (with no line pending and no input left in the port).
\<close>

theorem tty_cooked_editing:
  assumes "flags t = TTY_ECHO OR TTY_COOKED" and "ilen t = 0" and "\<not> ibuf_eol t"
    and "length (ibuf t) = IBUFSZ" and "3 \<le> count"
  shows "\<exists>t'. tty_read t count
                [CHR ''a'', CHR ''b'', CHR 0x08, CHR 0x08, CHR ''c'', CHR ''d'', CHR 0x0A] tx
              = (3, [CHR ''c'', CHR ''d'', CHR 0x0A], t', [],
                 tx @ [CHR ''a'', CHR ''b'', CHR 0x08, CHR '' '', CHR 0x08,
                       CHR 0x08, CHR '' '', CHR 0x08, CHR ''c'', CHR ''d'', CHR 0x0A])
            \<and> ilen t' = 0 \<and> \<not> ibuf_eol t'"
proof -
  obtain x0 x1 x2 rest where b: "ibuf t = x0 # x1 # x2 # rest"
    using ibuf_first_three[OF assms(4)] by blast
  have fill: "tty_fill t [CHR ''a'', CHR ''b'', CHR 0x08, CHR 0x08, CHR ''c'', CHR ''d'', CHR 0x0A]
                tx (- EAGAIN)
              = Inr (1, t \<lparr> ibuf_eol := True, ibuf := CHR ''c'' # CHR ''d'' # CHR 0x0A # rest,
                             ilen := 3 \<rparr>, [],
                     tx @ [CHR ''a'', CHR ''b'', CHR 0x08, CHR '' '', CHR 0x08,
                           CHR 0x08, CHR '' '', CHR 0x08, CHR ''c'', CHR ''d'', CHR 0x0A])"
    using assms(1,2,3) b by (simp add: tty_defs)
  show ?thesis
    using assms(1,5)
    by (simp add: tty_read_def fill ISCOOKED_def TTY_ECHO_def TTY_COOKED_def
        del: tty_fill.simps)
qed

theorem tty_cooked_editing_witness:
  "flags (tty_zero \<lparr> flags := 5 \<rparr>) = TTY_ECHO OR TTY_COOKED
   \<and> ilen (tty_zero \<lparr> flags := 5 \<rparr>) = 0 \<and> \<not> ibuf_eol (tty_zero \<lparr> flags := 5 \<rparr>)
   \<and> length (ibuf (tty_zero \<lparr> flags := 5 \<rparr>)) = IBUFSZ \<and> (3 :: nat) \<le> 3
   \<and> (\<exists>t'. tty_read (tty_zero \<lparr> flags := 5 \<rparr>) 3
              [CHR ''a'', CHR ''b'', CHR 0x08, CHR 0x08, CHR ''c'', CHR ''d'', CHR 0x0A] []
            = (3, [CHR ''c'', CHR ''d'', CHR 0x0A], t', [],
               [CHR ''a'', CHR ''b'', CHR 0x08, CHR '' '', CHR 0x08,
                CHR 0x08, CHR '' '', CHR 0x08, CHR ''c'', CHR ''d'', CHR 0x0A])
          \<and> ilen t' = 0 \<and> \<not> ibuf_eol t')"
proof -
  have a: "flags (tty_zero \<lparr> flags := 5 \<rparr>) = TTY_ECHO OR TTY_COOKED"
    by (simp add: TTY_ECHO_def TTY_COOKED_def)
  have b: "ilen (tty_zero \<lparr> flags := 5 \<rparr>) = 0" and c: "\<not> ibuf_eol (tty_zero \<lparr> flags := 5 \<rparr>)"
    and d: "length (ibuf (tty_zero \<lparr> flags := 5 \<rparr>)) = IBUFSZ"
    by (simp_all add: tty_zero_def)
  have e: "(3 :: nat) \<le> 3"
    by simp
  show ?thesis
    using tty_cooked_editing[OF a b c d e, of "[]"] a b c d by simp
qed

subsection \<open>TTY: echo of control characters\<close>

lemma echoc_caret:
  assumes "flags t = TTY_ECHO OR TTY_ECHOCTL" and "0 < (of_char ch :: nat)"
    and "(of_char ch :: nat) < 0x1f" and "ch \<notin> {CHR 0x09, CHR 0x0A, CHR 0x0D}"
  shows "echoc t ch tx = tx @ [CHR ''^'', char_of (int (of_char ch) + 0x40)]"
proof -
  have z: "ch \<noteq> NUL"
    using assms(2) by (auto simp: NUL_def)
  have s: "schar ch = int (of_char ch)"
    using assms(3) by (simp add: schar_def)
  show ?thesis
    using assms z
    by (auto simp add: echoc_def s isprint_def port_write_def TTY_ECHO_def TTY_ECHOCTL_def
        NUL_def)
qed

text \<open>
  C8. With \<open>ECHO\<close> and \<open>ECHOCTL\<close> set, every control byte from 0x00 to 0x1f other than
  tab, newline and carriage return is echoed as "^" and the byte plus 0x40. The code
  tests \<open>ch < 0x1f\<close>, so 0x1f is echoed in hexadecimal, as "\\x1f", not as "^\_"; and
  \<open>strchr("\\n\\r\\t", ch)\<close> finds the terminator of its string when \<open>ch\<close> is 0x00, so 0x00
  is echoed verbatim, not as "^@". The byte 0x1e is echoed as "^^".
\<close>

theorem echoc_control_bytes:
  "echoc (tty_zero \<lparr> flags := TTY_ECHO OR TTY_ECHOCTL \<rparr>) (CHR 0x1F) []
     = [CHR 0x5C, CHR ''x'', CHR ''1'', CHR ''f'']
   \<and> echoc (tty_zero \<lparr> flags := TTY_ECHO OR TTY_ECHOCTL \<rparr>) (CHR 0x00) [] = [CHR 0x00]
   \<and> strchr [CHR 0x0A, CHR 0x0D, CHR 0x09] (CHR 0x00) = Some 3
   \<and> echoc (tty_zero \<lparr> flags := TTY_ECHO OR TTY_ECHOCTL \<rparr>) (CHR 0x1E) [] = ''^^''"
  by code_simp

subsection \<open>TTY: minor numbers\<close>

lemma tty_open_dev_in_bounds:
  assumes "minor < TTY_CT"
  shows "\<exists>r. tty_open_dev fops_at chrdev_drivers ttys file minor = Some r"
  using assms by (auto simp: tty_open_dev_def Let_def split: prod.splits)

lemma tty_open_dev_refused:
  assumes "minor > TTY_CT"
  shows "tty_open_dev fops_at chrdev_drivers ttys file minor = Some (- ENODEV, file, ttys)"
  using assms by (simp add: tty_open_dev_def)

text \<open>
  C10. Every minor that \<open>tty_open_dev\<close> does not refuse with \<open>-ENODEV\<close> indexes one of
  the \<open>TTY_CT = 2\<close> elements of \<open>ttys\<close>. The code refuses \<open>min > TTY_CT\<close> only: the minor 2
  passes the check, and the code goes on to read \<open>ttys[2].initialized\<close>, past the end of
  the array.
\<close>

theorem tty_open_dev_minor_two:
  "TTY_CT = 2 \<and> tty_open_dev fops_at chrdev_drivers ttys file 2 = None"
  by (simp add: tty_open_dev_def TTY_CT_def)

end
